theory Spec2Isabelle
  imports Complex_Main
begin

section \<open>Data model\<close>

text \<open>
  The security camera turns per-frame person detections into debounced presence events.
  This theory embeds \<^verbatim>\<open>event_handler.py\<close> (classes \<^verbatim>\<open>ClipWriter\<close> and
  \<^verbatim>\<open>EventHandler\<close>), the public functions of \<^verbatim>\<open>notifier.py\<close> and the capture loop
  of \<^verbatim>\<open>main.py\<close>.

  Python floats (the monotonic clock, the configured durations, confidences) are modelled by
  \<^typ>\<open>real\<close>: the code only subtracts, multiplies and compares them. Everything the code does
  to the outside world (logger calls, files, the video writer, threads) is recorded, in
  call order, as a list of \<open>effect\<close>s returned next to the new state.
\<close>

type_synonym path = string

text \<open>
  A frame is an OpenCV image. The code reads its \<^verbatim>\<open>shape[:2]\<close>, that is (height, width),
  and hands it to \<^verbatim>\<open>cv2.imencode\<close>, whose outcome (the JPEG bytes, or \<open>None\<close> when
  \<^verbatim>\<open>ok\<close> is false) is the field \<open>jpeg\<close>.
\<close>

record frame =
  shape :: "nat \<times> nat"
  pixels :: "nat list"
  jpeg :: "nat list option"

text \<open>\<^verbatim>\<open>Detection = namedtuple("Detection", ["x1", "y1", "x2", "y2", "confidence"])\<close>\<close>

record detection =
  x1 :: int
  y1 :: int
  x2 :: int
  y2 :: int
  confidence :: real

text \<open>
  The values of \<^verbatim>\<open>config.py\<close> that the embedded code reads, together with the class
  attribute \<^verbatim>\<open>EventHandler.ABSENCE_GRACE_SECONDS\<close> (read through \<^verbatim>\<open>self\<close>).
\<close>

record config =
  FRAME_SKIP :: int
  EVENT_COOLDOWN_SECONDS :: real
  ABSENCE_GRACE_SECONDS :: real
  SNAPSHOTS_DIR :: path
  CLIPS_DIR :: path
  SAVE_SNAPSHOTS :: bool
  SAVE_CLIPS :: bool
  CLIP_DURATION_S :: real
  CLIP_FPS :: real

text \<open>The module globals of \<^verbatim>\<open>notifier.py\<close>, read from the environment at import.\<close>

record notifier =
  BOT_TOKEN :: string
  CHAT_ID :: string

text \<open>
  Log lines are kept structured: one constructor per message of the source.
  \<^item> \<open>ClipSaved p\<close>: "Clip saved -> p"
  \<^item> \<open>PersonDetected n cs\<close>: "PERSON DETECTED | count=n | confidences=[cs as percentages]"
  \<^item> \<open>SnapshotSaved p\<close>: "Snapshot saved -> p"
  \<^item> \<open>RecordingClip d p\<close>: "Recording clip (ds) -> p"
  \<^item> \<open>PersonLeft\<close>: "Person left the frame - monitoring resumed."
  \<^item> \<open>ClipFinalisedOnShutdown p\<close>: "Clip finalised on shutdown -> p"
  \<^item> \<open>SessionEnded\<close>: "Security camera session ended."
  \<^item> \<open>TelegramNotConfigured\<close>: "[Telegram] Not configured - set TELEGRAM_BOT_TOKEN and
    TELEGRAM_CHAT_ID in your .env file."
  \<^item> \<open>ManualSnapshotSaved p\<close>: "Manual snapshot saved -> p"
\<close>

datatype log_msg =
    ClipSaved path
  | PersonDetected nat "real list"
  | SnapshotSaved path
  | RecordingClip real path
  | PersonLeft
  | ClipFinalisedOnShutdown path
  | SessionEnded
  | TelegramNotConfigured
  | ManualSnapshotSaved path

datatype level = INFO | WARNING

text \<open>
  The caption of an alert: the timestamp string, the count and the confidences that the
  source formats into a Markdown message.
\<close>

datatype caption = Caption string nat "real list"

datatype message = AlertText caption | SessionStarted | SessionStopped

text \<open>The target and arguments of a daemon thread started by the notifier.\<close>

datatype task = SendPhotoBytes "nat list" caption | SendText message

datatype effect =
    Log level log_msg
  | ImWrite path frame
  | WriterOpen path real "nat \<times> nat"
  | WriterWrite path frame
  | WriterRelease path
  | ThreadStart task
  | DetectorCall real frame

datatype py_error = OSError | ZeroDivisionError

section \<open>notifier.py\<close>

definition is_configured :: "notifier \<Rightarrow> bool" where
  "is_configured nt = (BOT_TOKEN nt \<noteq> [] \<and> CHAT_ID nt \<noteq> [])"

definition send_alert ::
  "notifier \<Rightarrow> frame option \<Rightarrow> detection list \<Rightarrow> string \<Rightarrow> effect list" where
  "send_alert nt fr dets timestamp_iso =
     (if \<not> is_configured nt then [Log WARNING TelegramNotConfigured]
      else
        let n = length dets;
            confs = map confidence dets;
            cap = Caption timestamp_iso n confs
        in (case fr of
              None \<Rightarrow> [ThreadStart (SendText (AlertText cap))]
            | Some f \<Rightarrow>
                (case jpeg f of
                   Some jpeg_bytes \<Rightarrow> [ThreadStart (SendPhotoBytes jpeg_bytes cap)]
                 | None \<Rightarrow> [ThreadStart (SendText (AlertText cap))])))"

definition send_session_start :: "notifier \<Rightarrow> effect list" where
  "send_session_start nt =
     (if \<not> is_configured nt then [] else [ThreadStart (SendText SessionStarted)])"

definition send_session_end :: "notifier \<Rightarrow> effect list" where
  "send_session_end nt =
     (if \<not> is_configured nt then [] else [ThreadStart (SendText SessionStopped)])"

section \<open>event_handler.py: ClipWriter\<close>

text \<open>Python's \<^verbatim>\<open>int(x)\<close> on a float truncates toward zero.\<close>

definition py_int :: "real \<Rightarrow> int" where
  "py_int x = (if 0 \<le> x then \<lfloor>x\<rfloor> else \<lceil>x\<rceil>)"

record ClipWriter =
  filepath :: path
  max_frames :: int
  written :: int

definition ClipWriter_init :: "config \<Rightarrow> path \<Rightarrow> nat \<times> nat \<Rightarrow> ClipWriter \<times> effect list" where
  "ClipWriter_init cfg fp frame_size =
     (\<lparr>filepath = fp,
       max_frames = py_int (CLIP_DURATION_S cfg * CLIP_FPS cfg),
       written = 0\<rparr>,
      [WriterOpen fp (CLIP_FPS cfg) frame_size])"

definition is_finished :: "ClipWriter \<Rightarrow> bool" where
  "is_finished c = (written c \<ge> max_frames c)"

definition ClipWriter_write :: "ClipWriter \<Rightarrow> frame \<Rightarrow> ClipWriter \<times> effect list" where
  "ClipWriter_write c f =
     (if \<not> is_finished c
      then (c\<lparr>written := written c + 1\<rparr>, [WriterWrite (filepath c) f])
      else (c, []))"

definition ClipWriter_close :: "ClipWriter \<Rightarrow> effect list" where
  "ClipWriter_close c = [WriterRelease (filepath c)]"

section \<open>event_handler.py: EventHandler\<close>

record EventHandler =
  last_event_time :: real
  active_clip :: "ClipWriter option"
  person_present :: bool
  last_seen_time :: real

text \<open>
  What one call of \<^verbatim>\<open>handle\<close> reads from outside: the monotonic clock, the wall clock
  already formatted by \<^verbatim>\<open>strftime("%Y-%m-%dT%H-%M-%SZ")\<close>, the frame and the detections.
\<close>

record call =
  now :: real
  iso_ts :: string
  image :: frame
  dets :: "detection list"

text \<open>
  \<^verbatim>\<open>__init__\<close> creates the output directories and the log file before it sets the
  fields; \<open>io_ok\<close> tells whether those library calls succeed (they raise \<^verbatim>\<open>OSError\<close>
  otherwise). It reads no configuration value other than the directories.
\<close>

definition EventHandler_init ::
  "config \<Rightarrow> notifier \<Rightarrow> bool \<Rightarrow> py_error + (EventHandler \<times> effect list)" where
  "EventHandler_init cfg nt io_ok =
     (if \<not> io_ok then Inl OSError
      else Inr (\<lparr>last_event_time = 0, active_clip = None,
                 person_present = False, last_seen_time = 0\<rparr>,
                send_session_start nt))"

text \<open>\<^verbatim>\<open>os.path.join\<close> of a directory and a file name.\<close>

definition path_join :: "path \<Rightarrow> string \<Rightarrow> path" where
  "path_join d f = d @ ''/'' @ f"

text \<open>\<^verbatim>\<open>s.replace(c, r)\<close> for a one-character pattern.\<close>

definition replace_char :: "char \<Rightarrow> string \<Rightarrow> string \<Rightarrow> string" where
  "replace_char c r s = concat (map (\<lambda>x. if x = c then r else [x]) s)"

definition fire_event ::
  "config \<Rightarrow> notifier \<Rightarrow> call \<Rightarrow> EventHandler \<Rightarrow> EventHandler \<times> effect list" where
  "fire_event cfg nt cl s =
     (let n_people = length (dets cl);
          confs = map confidence (dets cl);
          e_log = [Log INFO (PersonDetected n_people confs)];
          snap_path = path_join (SNAPSHOTS_DIR cfg) (''snapshot_'' @ iso_ts cl @ ''.jpg'');
          e_snap = (if SAVE_SNAPSHOTS cfg
                    then [ImWrite snap_path (image cl), Log INFO (SnapshotSaved snap_path)]
                    else []);
          clip_path = path_join (CLIPS_DIR cfg) (''clip_'' @ iso_ts cl @ ''.mp4'');
          (s', e_clip) =
            (if SAVE_CLIPS cfg \<and> active_clip s = None
             then (let (h, w) = shape (image cl);
                       (c, e_open) = ClipWriter_init cfg clip_path (w, h);
                       (c', e_write) = ClipWriter_write c (image cl)
                   in (s\<lparr>active_clip := Some c'\<rparr>,
                       e_open @ e_write
                         @ [Log INFO (RecordingClip (CLIP_DURATION_S cfg) clip_path)]))
             else (s, []));
          e_alert = send_alert nt (Some (image cl)) (dets cl)
                      (replace_char CHR ''Z'' '' UTC'' (replace_char CHR ''T'' '' '' (iso_ts cl)))
      in (s', e_log @ e_snap @ e_clip @ e_alert))"

text \<open>The first block of \<^verbatim>\<open>handle\<close>: keep the active clip fed.\<close>

definition feed_clip :: "call \<Rightarrow> EventHandler \<Rightarrow> EventHandler \<times> effect list" where
  "feed_clip cl s =
     (case active_clip s of
        None \<Rightarrow> (s, [])
      | Some c \<Rightarrow>
          (let (c', e_write) = ClipWriter_write c (image cl)
           in if is_finished c'
              then (s\<lparr>active_clip := None\<rparr>,
                    e_write @ [Log INFO (ClipSaved (filepath c'))] @ ClipWriter_close c')
              else (s\<lparr>active_clip := Some c'\<rparr>, e_write)))"

text \<open>The second block of \<^verbatim>\<open>handle\<close>: the presence-state machine.\<close>

definition presence ::
  "config \<Rightarrow> notifier \<Rightarrow> call \<Rightarrow> EventHandler \<Rightarrow> EventHandler \<times> effect list" where
  "presence cfg nt cl s =
     (let n_ppl = length (dets cl) in
      if n_ppl > 0 then
        (let s1 = s\<lparr>last_seen_time := now cl\<rparr> in
         if \<not> person_present s1 then
           (let cooldown_ok = (now cl - last_event_time s1 \<ge> EVENT_COOLDOWN_SECONDS cfg) in
            if cooldown_ok
            then fire_event cfg nt cl (s1\<lparr>person_present := True, last_event_time := now cl\<rparr>)
            else (s1, []))
         else (s1, []))
      else
        (let absent_for = now cl - last_seen_time s in
         if person_present s \<and> absent_for \<ge> ABSENCE_GRACE_SECONDS cfg
         then (s\<lparr>person_present := False\<rparr>, [Log INFO PersonLeft])
         else (s, [])))"

definition handle ::
  "config \<Rightarrow> notifier \<Rightarrow> call \<Rightarrow> EventHandler \<Rightarrow> bool \<times> EventHandler \<times> effect list" where
  "handle cfg nt cl s =
     (let (s1, e1) = feed_clip cl s;
          (s2, e2) = presence cfg nt cl s1
      in (person_present s2 \<or> active_clip s2 \<noteq> None, s2, e1 @ e2))"

definition shutdown :: "notifier \<Rightarrow> EventHandler \<Rightarrow> EventHandler \<times> effect list" where
  "shutdown nt s =
     (let (s1, e1) =
            (case active_clip s of
               None \<Rightarrow> (s, [])
             | Some c \<Rightarrow> (s\<lparr>active_clip := None\<rparr>,
                           ClipWriter_close c @ [Log INFO (ClipFinalisedOnShutdown (filepath c))]))
      in (s1, e1 @ [Log INFO SessionEnded] @ send_session_end nt))"

text \<open>A session: \<^verbatim>\<open>handle\<close> called once per frame, in order, on the same handler.\<close>

fun handle_all ::
  "config \<Rightarrow> notifier \<Rightarrow> call list \<Rightarrow> EventHandler \<Rightarrow> EventHandler \<times> effect list" where
  "handle_all cfg nt [] s = (s, [])"
| "handle_all cfg nt (cl # cls) s =
     (let (a, s1, e1) = handle cfg nt cl s;
          (s2, e2) = handle_all cfg nt cls s1
      in (s2, e1 @ e2))"

text \<open>
  \<^verbatim>\<open>_fire_event\<close> starts by logging "PERSON DETECTED", and nothing else logs it, so the
  events fired are the entries of that kind in the trace.
\<close>

fun is_fire :: "effect \<Rightarrow> bool" where
  "is_fire (Log lv (PersonDetected n cs)) = True"
| "is_fire e = False"

definition fire_count :: "effect list \<Rightarrow> nat" where
  "fire_count es = length (filter is_fire es)"

text \<open>Writers opened and not yet released, counted on a trace.\<close>

fun is_open :: "effect \<Rightarrow> bool" where
  "is_open (WriterOpen p r sz) = True"
| "is_open e = False"

fun is_release :: "effect \<Rightarrow> bool" where
  "is_release (WriterRelease p) = True"
| "is_release e = False"

definition open_writers :: "effect list \<Rightarrow> int" where
  "open_writers es = int (length (filter is_open es)) - int (length (filter is_release es))"

fun is_detect :: "effect \<Rightarrow> bool" where
  "is_detect (DetectorCall th f) = True"
| "is_detect e = False"

definition detector_calls :: "effect list \<Rightarrow> nat" where
  "detector_calls es = length (filter is_detect es)"

section \<open>main.py: the capture loop\<close>

text \<open>
  What one iteration of \<^verbatim>\<open>while True\<close> reads from outside: the result of
  \<^verbatim>\<open>cap.read()\<close> (\<open>None\<close> when \<^verbatim>\<open>ret\<close> is false), the key returned by
  \<^verbatim>\<open>cv2.waitKey(1) & 0xFF\<close>, the two clocks read inside \<^verbatim>\<open>handle\<close>, the wall clock
  read by \<^verbatim>\<open>save_manual_snapshot\<close> and the frame as it looks after the drawing calls.
  The drawing calls, \<^verbatim>\<open>cv2.imshow\<close>, the FPS counter and the \<^verbatim>\<open>print\<close>s touch none
  of the loop's variables and leave no entry in the trace.
\<close>

record iteration =
  cap_read :: "frame option"
  key :: nat
  clock :: real
  wall :: string
  snap_ts :: string
  drawn :: frame

record main_state =
  paused :: bool
  frame_count :: int
  detections :: "detection list"
  alert_active :: bool
  conf_thresh :: real
  event_handler :: EventHandler

datatype status = Continue | Break | Raised py_error

definition ord :: "char \<Rightarrow> nat" where
  "ord c = of_char c"

definition save_manual_snapshot :: "config \<Rightarrow> string \<Rightarrow> frame \<Rightarrow> effect list" where
  "save_manual_snapshot cfg ts fr =
     (let p = path_join (SNAPSHOTS_DIR cfg) (''manual_'' @ ts @ ''.jpg'')
      in [ImWrite p fr, Log INFO (ManualSnapshotSaved p)])"

text \<open>The keyboard controls at the end of a frame that was not paused.\<close>

definition key_control ::
  "config \<Rightarrow> iteration \<Rightarrow> main_state \<Rightarrow> status \<times> main_state \<times> effect list" where
  "key_control cfg it s =
     (if key it = ord CHR ''q'' then (Break, s, [])
      else if key it = ord CHR ''s''
        then (Continue, s, save_manual_snapshot cfg (snap_ts it) (drawn it))
      else if key it = ord CHR '' '' then (Continue, s\<lparr>paused := True\<rparr>, [])
      else if key it = ord CHR ''+'' \<or> key it = ord CHR ''=''
        then (Continue, s\<lparr>conf_thresh := min 0.99 (conf_thresh s + 0.05)\<rparr>, [])
      else if key it = ord CHR ''-''
        then (Continue, s\<lparr>conf_thresh := max 0.05 (conf_thresh s - 0.05)\<rparr>, [])
      else (Continue, s, []))"

text \<open>
  One iteration of the loop. The detector is a parameter: it reads the live confidence
  threshold and the frame. \<^verbatim>\<open>frame_count % config.FRAME_SKIP\<close> raises
  \<^verbatim>\<open>ZeroDivisionError\<close> when \<^verbatim>\<open>FRAME_SKIP\<close> is 0; for other values Python's
  \<^verbatim>\<open>%\<close> on integers is \<open>mod\<close> on \<^typ>\<open>int\<close>.
\<close>

definition main_step ::
  "config \<Rightarrow> notifier \<Rightarrow> (real \<Rightarrow> frame \<Rightarrow> detection list) \<Rightarrow> iteration \<Rightarrow> main_state
     \<Rightarrow> status \<times> main_state \<times> effect list" where
  "main_step cfg nt detect it s =
     (case cap_read it of
        None \<Rightarrow> (Continue, s, [])
      | Some fr \<Rightarrow>
          (let s1 = s\<lparr>frame_count := frame_count s + 1\<rparr> in
           if paused s1 then
             (if key it = ord CHR ''q'' then (Break, s1, [])
              else if key it = ord CHR '' '' then (Continue, s1\<lparr>paused := False\<rparr>, [])
              else (Continue, s1, []))
           else if FRAME_SKIP cfg = 0 then (Raised ZeroDivisionError, s1, [])
           else
             (let (ds, e_det) =
                    (if frame_count s1 mod FRAME_SKIP cfg = 0
                     then (detect (conf_thresh s1) fr, [DetectorCall (conf_thresh s1) fr])
                     else (detections s1, []));
                  (alert, h, e_h) =
                    handle cfg nt \<lparr>now = clock it, iso_ts = wall it, image = fr, dets = ds\<rparr>
                      (event_handler s1);
                  s2 = s1\<lparr>detections := ds, alert_active := alert, event_handler := h\<rparr>;
                  (st, s3, e_key) = key_control cfg it s2
              in (st, s3, e_det @ e_h @ e_key))))"

section \<open>Concrete inputs\<close>

text \<open>The values of \<^verbatim>\<open>config.py\<close> as shipped, with the directories relative to the project root.\<close>

definition default_config :: config where
  "default_config =
     \<lparr>FRAME_SKIP = 1, EVENT_COOLDOWN_SECONDS = 10, ABSENCE_GRACE_SECONDS = 2,
      SNAPSHOTS_DIR = ''outputs/snapshots'', CLIPS_DIR = ''outputs/clips'',
      SAVE_SNAPSHOTS = True, SAVE_CLIPS = True, CLIP_DURATION_S = 8, CLIP_FPS = 20\<rparr>"

text \<open>No \<^verbatim>\<open>TELEGRAM_BOT_TOKEN\<close> and no \<^verbatim>\<open>TELEGRAM_CHAT_ID\<close> in the environment.\<close>

definition no_telegram :: notifier where
  "no_telegram = \<lparr>BOT_TOKEN = [], CHAT_ID = []\<rparr>"

definition frame0 :: frame where
  "frame0 = \<lparr>shape = (720, 1280), pixels = [], jpeg = Some []\<rparr>"

definition det0 :: detection where
  "det0 = \<lparr>x1 = 100, y1 = 50, x2 = 300, y2 = 600, confidence = 0.87\<rparr>"

definition call_at :: "real \<Rightarrow> detection list \<Rightarrow> call" where
  "call_at t ds = \<lparr>now = t, iso_ts = ''2025-01-01T00-00-00Z'', image = frame0, dets = ds\<rparr>"

definition initial :: EventHandler where
  "initial = \<lparr>last_event_time = 0, active_clip = None, person_present = False,
              last_seen_time = 0\<rparr>"

text \<open>A handler in the middle of a visit that started at time 10.\<close>

definition visiting :: EventHandler where
  "visiting = \<lparr>last_event_time = 10, active_clip = None, person_present = True,
               last_seen_time = 10\<rparr>"

text \<open>Frames handed to a video writer, counted on a trace.\<close>

fun is_write :: "effect \<Rightarrow> bool" where
  "is_write (WriterWrite p f) = True"
| "is_write e = False"

definition frames_written :: "effect list \<Rightarrow> nat" where
  "frames_written es = length (filter is_write es)"

text \<open>The clips a handler holds open: one when \<open>active_clip\<close> is set, none otherwise.\<close>

definition open_clips :: "EventHandler \<Rightarrow> int" where
  "open_clips s = (if active_clip s = None then 0 else 1)"

text \<open>
  The invariant of a clip writer created under a configuration: its target is the one
  \<^verbatim>\<open>__init__\<close> computes and its counter never passes the target.
\<close>

definition clip_ok :: "config \<Rightarrow> ClipWriter \<Rightarrow> bool" where
  "clip_ok cfg c = (max_frames c = py_int (CLIP_DURATION_S cfg * CLIP_FPS cfg)
                    \<and> 0 \<le> written c \<and> written c \<le> max 0 (max_frames c))"

text \<open>
  The clips of a trace, read off the video writer's effects alone. The scan keeps the path of
  the writer that is open and the number of frames handed to it so far, and a list of the
  frame counts of the clips released so far, in order: a \<open>WriterOpen\<close> starts a count at 0,
  a \<open>WriterWrite\<close> to the open path adds one, a \<open>WriterRelease\<close> of the open path moves
  the count to the list.
\<close>

fun clip_step ::
  "(path \<times> nat) option \<times> nat list \<Rightarrow> effect \<Rightarrow> (path \<times> nat) option \<times> nat list" where
  "clip_step (cur, fin) (WriterOpen p r sz) = (Some (p, 0), fin)"
| "clip_step (cur, fin) (WriterWrite p f) =
     ((case cur of
         Some (q, n) \<Rightarrow> if q = p then Some (q, Suc n) else cur
       | None \<Rightarrow> None), fin)"
| "clip_step (cur, fin) (WriterRelease p) =
     (case cur of
        Some (q, n) \<Rightarrow> if q = p then (None, fin @ [n]) else (cur, fin)
      | None \<Rightarrow> (None, fin))"
| "clip_step (cur, fin) e = (cur, fin)"

definition clip_scan :: "effect list \<Rightarrow> (path \<times> nat) option \<times> nat list" where
  "clip_scan es = foldl clip_step (None, []) es"

text \<open>The open clip of a trace with the frames written to it so far.\<close>

definition open_clip_frames :: "effect list \<Rightarrow> (path \<times> nat) option" where
  "open_clip_frames es = fst (clip_scan es)"

text \<open>The number of frames written to each clip that the trace has released.\<close>

definition clip_lengths :: "effect list \<Rightarrow> nat list" where
  "clip_lengths es = snd (clip_scan es)"

text \<open>
  The invariant that ties a handler to the scan of its trace: the open clip of the trace is
  the handler's clip, with as many frames written as its counter says; that clip is within
  its target; and every clip released so far holds the target number of frames.
\<close>

definition tracks ::
  "config \<Rightarrow> EventHandler \<Rightarrow> (path \<times> nat) option \<times> nat list \<Rightarrow> bool" where
  "tracks cfg s st =
     (fst st = map_option (\<lambda>c. (filepath c, nat (written c))) (active_clip s)
      \<and> (case active_clip s of None \<Rightarrow> True | Some c \<Rightarrow> clip_ok cfg c)
      \<and> list_all (\<lambda>n. int n = max 0 (py_int (CLIP_DURATION_S cfg * CLIP_FPS cfg))) (snd st))"

text \<open>Snapshots and clips switched off.\<close>

definition quiet_config :: config where
  "quiet_config = default_config\<lparr>SAVE_SNAPSHOTS := False, SAVE_CLIPS := False\<rparr>"

text \<open>A quarter-second clip at 15 frames per second: the product is 3.75.\<close>

definition short_clip_config :: config where
  "short_clip_config =
     default_config\<lparr>SAVE_SNAPSHOTS := False, CLIP_DURATION_S := 0.25, CLIP_FPS := 15\<rparr>"

text \<open>A cooldown shorter than the clip, so that a second visit can start while the first clip records.\<close>

definition overlap_config :: config where
  "overlap_config = default_config\<lparr>EVENT_COOLDOWN_SECONDS := 1, SAVE_SNAPSHOTS := False\<rparr>"

text \<open>A non-positive cooldown and a non-positive grace period.\<close>

definition nonpositive_config :: config where
  "nonpositive_config =
     default_config\<lparr>EVENT_COOLDOWN_SECONDS := - 1, ABSENCE_GRACE_SECONDS := 0\<rparr>"

definition clip_file :: path where
  "clip_file = ''outputs/clips/clip_2025-01-01T00-00-00Z.mp4''"

text \<open>A handler after the visit that started at time 10 has ended.\<close>

definition departed :: EventHandler where
  "departed = \<lparr>last_event_time = 10, active_clip = None, person_present = False,
               last_seen_time = 10\<rparr>"

text \<open>A handler whose visitor has left while the clip of that visit, 30 frames in, still records.\<close>

definition recording :: EventHandler where
  "recording = \<lparr>last_event_time = 10,
                 active_clip = Some \<lparr>filepath = clip_file, max_frames = 160, written = 30\<rparr>,
                 person_present = False, last_seen_time = 10\<rparr>"

text \<open>The loop before its second frame, a frame read with no key pressed, and a detector that always sees one person.\<close>

definition loop1 :: main_state where
  "loop1 = \<lparr>paused = False, frame_count = 1, detections = [], alert_active = False,
            conf_thresh = 0.45, event_handler = initial\<rparr>"

definition read_at :: "real \<Rightarrow> iteration" where
  "read_at t = \<lparr>cap_read = Some frame0, key = 255, clock = t,
                wall = ''2025-01-01T00-00-00Z'', snap_ts = ''2025-01-01T00-00-00Z'',
                drawn = frame0\<rparr>"

definition sees_one :: "real \<Rightarrow> frame \<Rightarrow> detection list" where
  "sees_one th f = [det0]"

section \<open>Properties of handle\<close>

lemma fire_count_append: "fire_count (xs @ ys) = fire_count xs + fire_count ys"
  by (simp add: fire_count_def)

lemma fire_count_Nil: "fire_count [] = 0"
  by (simp add: fire_count_def)

lemma fire_count_Cons: "fire_count (x # xs) = (if is_fire x then 1 else 0) + fire_count xs"
  by (simp add: fire_count_def)

lemma fire_count_send_alert: "fire_count (send_alert nt f d ts) = 0"
  by (simp add: send_alert_def fire_count_def Let_def split: option.splits)

lemma fire_count_session_start: "fire_count (send_session_start nt) = 0"
  by (simp add: send_session_start_def fire_count_def)

text \<open>Feeding the clip touches neither the presence flag nor the two timestamps.\<close>

lemma feed_clip_presence:
  "feed_clip cl s = (s1, e1) \<Longrightarrow>
     person_present s1 = person_present s \<and> last_seen_time s1 = last_seen_time s
     \<and> last_event_time s1 = last_event_time s \<and> fire_count e1 = 0"
  by (auto simp: feed_clip_def ClipWriter_write_def ClipWriter_close_def fire_count_def
      split: option.splits if_splits prod.splits)

lemma feed_clip_only_clip:
  "feed_clip cl s = (s1, e1) \<Longrightarrow> s1 = s\<lparr>active_clip := active_clip s1\<rparr>"
  by (auto simp: feed_clip_def split: option.splits if_splits prod.splits)

lemma fire_event_presence:
  "fire_event cfg nt cl s = (s', es) \<Longrightarrow>
     person_present s' = person_present s \<and> last_seen_time s' = last_seen_time s
     \<and> last_event_time s' = last_event_time s \<and> fire_count es = 1"
  by (auto simp: fire_event_def Let_def ClipWriter_init_def ClipWriter_write_def
      fire_count_append fire_count_send_alert fire_count_Cons fire_count_Nil
      split: option.splits if_splits prod.splits)

text \<open>The presence-state machine, branch by branch.\<close>

lemma presence_cases:
  "presence cfg nt cl s = (s', es) \<Longrightarrow>
   (if dets cl \<noteq> [] then
      last_seen_time s' = now cl \<and>
      (if \<not> person_present s \<and> now cl - last_event_time s \<ge> EVENT_COOLDOWN_SECONDS cfg
       then person_present s' \<and> last_event_time s' = now cl \<and> fire_count es = 1
       else person_present s' = person_present s \<and> last_event_time s' = last_event_time s
            \<and> es = [])
    else
      last_seen_time s' = last_seen_time s \<and> last_event_time s' = last_event_time s \<and>
      (if person_present s \<and> now cl - last_seen_time s \<ge> ABSENCE_GRACE_SECONDS cfg
       then s' = s\<lparr>person_present := False\<rparr> \<and> es = [Log INFO PersonLeft]
       else s' = s \<and> es = []))"
  by (auto simp: presence_def Let_def dest!: fire_event_presence split: if_splits)

lemma handle_unfold:
  assumes "handle cfg nt cl s = (a, s', es)"
  obtains s1 e1 e2 where "feed_clip cl s = (s1, e1)" and "presence cfg nt cl s1 = (s', e2)"
    and "es = e1 @ e2" and "a = (person_present s' \<or> active_clip s' \<noteq> None)"
proof -
  obtain s1 e1 where f: "feed_clip cl s = (s1, e1)" by (cases "feed_clip cl s")
  obtain s2 e2 where p: "presence cfg nt cl s1 = (s2, e2)" by (cases "presence cfg nt cl s1")
  from assms f p have "s' = s2" "es = e1 @ e2" "a = (person_present s' \<or> active_clip s' \<noteq> None)"
    by (auto simp: handle_def)
  with f p that show thesis by blast
qed

lemma handle_cases:
  assumes "handle cfg nt cl s = (a, s', es)"
  shows "if dets cl \<noteq> [] then
      last_seen_time s' = now cl \<and>
      (if \<not> person_present s \<and> now cl - last_event_time s \<ge> EVENT_COOLDOWN_SECONDS cfg
       then person_present s' \<and> last_event_time s' = now cl \<and> fire_count es = 1
       else person_present s' = person_present s \<and> last_event_time s' = last_event_time s
            \<and> fire_count es = 0)
    else
      last_seen_time s' = last_seen_time s \<and> last_event_time s' = last_event_time s \<and>
      fire_count es = 0 \<and>
      person_present s' =
        (person_present s \<and> \<not> now cl - last_seen_time s \<ge> ABSENCE_GRACE_SECONDS cfg)"
proof -
  from assms obtain s1 e1 e2 where f: "feed_clip cl s = (s1, e1)"
    and p: "presence cfg nt cl s1 = (s', e2)" and es: "es = e1 @ e2"
    by (rule handle_unfold)
  from feed_clip_presence[OF f] presence_cases[OF p] es
  show ?thesis
    by (auto simp: fire_count_append fire_count_Nil fire_count_Cons split: if_splits)
qed

text \<open>
  Claim C1. A call of \<^verbatim>\<open>handle\<close> with at least one detection, made while nobody is
  marked present and less than \<^verbatim>\<open>EVENT_COOLDOWN_SECONDS\<close> after the last event, fires
  no event and leaves \<open>person_present\<close> false: the arrival itself is dropped. The last-seen
  time is still set to the time of the call, and the last-event time stays as it was.
\<close>

theorem cooldown_suppresses_arrival:
  assumes "dets cl \<noteq> []" and "\<not> person_present s"
      and "now cl - last_event_time s < EVENT_COOLDOWN_SECONDS cfg"
      and "handle cfg nt cl s = (a, s', es)"
  shows "fire_count es = 0 \<and> \<not> person_present s' \<and> last_seen_time s' = now cl
         \<and> last_event_time s' = last_event_time s"
  using handle_cases[OF assms(4)] assms(1-3) by simp

theorem cooldown_suppresses_arrival_witness:
  "dets (call_at 3 [det0]) \<noteq> [] \<and> \<not> person_present initial
   \<and> now (call_at 3 [det0]) - last_event_time initial < EVENT_COOLDOWN_SECONDS default_config
   \<and> handle default_config no_telegram (call_at 3 [det0]) initial
       = (False, initial\<lparr>last_seen_time := 3\<rparr>, [])
   \<and> fire_count [] = 0"
  using cooldown_suppresses_arrival[of "call_at 3 [det0]" initial default_config no_telegram
      False "initial\<lparr>last_seen_time := 3\<rparr>" "[]"]
  by (simp add: handle_def feed_clip_def presence_def call_at_def initial_def
      default_config_def fire_count_def)

lemmas eval_defs = handle_def feed_clip_def presence_def fire_event_def send_alert_def
  send_session_start_def is_configured_def call_at_def initial_def visiting_def departed_def
  recording_def clip_file_def default_config_def quiet_config_def short_clip_config_def
  overlap_config_def no_telegram_def replace_char_def path_join_def ClipWriter_init_def
  ClipWriter_write_def ClipWriter_close_def is_finished_def py_int_def frame0_def det0_def
  EventHandler_init_def Let_def

section \<open>Sessions: one event per visit\<close>

lemma present_run:
  "person_present s \<Longrightarrow> \<forall>c\<in>set cls. dets c \<noteq> [] \<Longrightarrow> handle_all cfg nt cls s = (s', es)
    \<Longrightarrow> person_present s' \<and> fire_count es = 0"
proof (induction cls arbitrary: s s' es)
  case Nil
  then show ?case by (simp add: fire_count_Nil)
next
  case (Cons c cls)
  obtain a s1 e1 where h: "handle cfg nt c s = (a, s1, e1)" by (cases "handle cfg nt c s")
  obtain s2 e2 where r: "handle_all cfg nt cls s1 = (s2, e2)"
    by (cases "handle_all cfg nt cls s1")
  from Cons.prems(3) h r have eq: "s' = s2" "es = e1 @ e2" by simp_all
  from handle_cases[OF h] Cons.prems(1,2) have p1: "person_present s1" "fire_count e1 = 0"
    by simp_all
  from Cons.IH[OF p1(1) _ r] Cons.prems(2) have "person_present s2 \<and> fire_count e2 = 0"
    by simp
  with p1 eq show ?case by (simp add: fire_count_append)
qed

lemma idle_run:
  "\<not> person_present s \<Longrightarrow> \<forall>c\<in>set cls. dets c = [] \<Longrightarrow> handle_all cfg nt cls s = (s', es)
    \<Longrightarrow> \<not> person_present s' \<and> last_seen_time s' = last_seen_time s
        \<and> last_event_time s' = last_event_time s \<and> fire_count es = 0"
proof (induction cls arbitrary: s s' es)
  case Nil
  then show ?case by (simp add: fire_count_Nil)
next
  case (Cons c cls)
  obtain a s1 e1 where h: "handle cfg nt c s = (a, s1, e1)" by (cases "handle cfg nt c s")
  obtain s2 e2 where r: "handle_all cfg nt cls s1 = (s2, e2)"
    by (cases "handle_all cfg nt cls s1")
  from Cons.prems(3) h r have eq: "s' = s2" "es = e1 @ e2" by simp_all
  from handle_cases[OF h] Cons.prems(1,2)
  have p1: "\<not> person_present s1" "fire_count e1 = 0" "last_seen_time s1 = last_seen_time s"
    "last_event_time s1 = last_event_time s"
    by simp_all
  from Cons.IH[OF p1(1) _ r] Cons.prems(2)
  have "\<not> person_present s2 \<and> last_seen_time s2 = last_seen_time s1
        \<and> last_event_time s2 = last_event_time s1 \<and> fire_count e2 = 0"
    by simp
  with p1 eq show ?case by (simp add: fire_count_append)
qed

lemma arrival_eval:
  "handle quiet_config no_telegram (call_at 10 [det0]) initial
   = (True, visiting, [Log INFO (PersonDetected 1 [0.87]), Log WARNING TelegramNotConfigured])"
  by (simp add: eval_defs)

lemma stay_eval:
  "handle_all quiet_config no_telegram [call_at 10.1 [det0], call_at 10.2 [det0]] visiting
   = (visiting\<lparr>last_seen_time := 10.2\<rparr>, [])"
  by (simp add: eval_defs)

text \<open>
  Claim C2. In every call of \<^verbatim>\<open>handle\<close> the event-fire procedure runs at most once, and it
  runs exactly when \<open>person_present\<close> goes from false to true in that call, which happens
  exactly when the call has a detection, nobody was present and the cooldown has elapsed.
  Hence a run of calls that all carry detections, started while nobody is present and the
  cooldown is satisfied, fires one event, in its first call; no later call of the run fires
  again and the person stays present.
\<close>

theorem event_fires_only_on_arrival:
  "(handle cfg nt cl s = (a, s', es) \<longrightarrow>
      fire_count es = (if \<not> person_present s \<and> person_present s' then 1 else 0)
      \<and> ((\<not> person_present s \<and> person_present s') =
           (dets cl \<noteq> [] \<and> \<not> person_present s
             \<and> now cl - last_event_time s \<ge> EVENT_COOLDOWN_SECONDS cfg)))
   \<and> (\<not> person_present s \<and> now cl - last_event_time s \<ge> EVENT_COOLDOWN_SECONDS cfg
      \<and> (\<forall>c\<in>set (cl # cls). dets c \<noteq> [])
      \<and> handle cfg nt cl s = (a, s', es) \<and> handle_all cfg nt cls s' = (s'', es')
      \<longrightarrow> fire_count es = 1 \<and> fire_count es' = 0 \<and> person_present s''
          \<and> fire_count (snd (handle_all cfg nt (cl # cls) s)) = 1)"
proof (intro conjI impI)
  assume h: "handle cfg nt cl s = (a, s', es)"
  from handle_cases[OF h]
  show "fire_count es = (if \<not> person_present s \<and> person_present s' then 1 else 0)"
    by (auto split: if_splits)
  from handle_cases[OF h]
  show "(\<not> person_present s \<and> person_present s') =
           (dets cl \<noteq> [] \<and> \<not> person_present s
             \<and> now cl - last_event_time s \<ge> EVENT_COOLDOWN_SECONDS cfg)"
    by (auto split: if_splits)
next
  assume pre: "\<not> person_present s \<and> now cl - last_event_time s \<ge> EVENT_COOLDOWN_SECONDS cfg
      \<and> (\<forall>c\<in>set (cl # cls). dets c \<noteq> [])
      \<and> handle cfg nt cl s = (a, s', es) \<and> handle_all cfg nt cls s' = (s'', es')"
  then have h: "handle cfg nt cl s = (a, s', es)"
    and r: "handle_all cfg nt cls s' = (s'', es')" by simp_all
  from handle_cases[OF h] pre have first: "person_present s'" "fire_count es = 1"
    by simp_all
  from present_run[OF first(1) _ r] pre have rest: "person_present s''" "fire_count es' = 0"
    by simp_all
  from first show "fire_count es = 1" by simp
  from rest show "fire_count es' = 0" by simp
  from rest show "person_present s''" by simp
  from h r first rest show "fire_count (snd (handle_all cfg nt (cl # cls) s)) = 1"
    by (simp add: fire_count_append)
qed

theorem event_fires_only_on_arrival_witness:
  "handle quiet_config no_telegram (call_at 10 [det0]) initial
     = (True, visiting, [Log INFO (PersonDetected 1 [0.87]), Log WARNING TelegramNotConfigured])
   \<and> handle_all quiet_config no_telegram [call_at 10.1 [det0], call_at 10.2 [det0]] visiting
     = (visiting\<lparr>last_seen_time := 10.2\<rparr>, [])
   \<and> \<not> person_present initial \<and> person_present visiting
   \<and> now (call_at 10 [det0]) - last_event_time initial \<ge> EVENT_COOLDOWN_SECONDS quiet_config
   \<and> fire_count [Log INFO (PersonDetected 1 [0.87]), Log WARNING TelegramNotConfigured] = 1
   \<and> fire_count (snd (handle_all quiet_config no_telegram
        [call_at 10 [det0], call_at 10.1 [det0], call_at 10.2 [det0]] initial)) = 1"
  using event_fires_only_on_arrival[of quiet_config no_telegram "call_at 10 [det0]" initial
      True visiting "[Log INFO (PersonDetected 1 [0.87]), Log WARNING TelegramNotConfigured]"
      "[call_at 10.1 [det0], call_at 10.2 [det0]]" "visiting\<lparr>last_seen_time := 10.2\<rparr>" "[]"]
    arrival_eval stay_eval
  by (simp add: call_at_def initial_def visiting_def quiet_config_def default_config_def)

text \<open>
  Claim C9. Once nobody is marked present, any number of further calls of \<^verbatim>\<open>handle\<close>
  without detections fires no event and leaves \<open>person_present\<close> false and both timestamps
  as they were.
\<close>

theorem idle_after_departure:
  assumes "\<not> person_present s" and "\<forall>c\<in>set cls. dets c = []"
      and "handle_all cfg nt cls s = (s', es)"
  shows "\<not> person_present s' \<and> last_seen_time s' = last_seen_time s
        \<and> last_event_time s' = last_event_time s \<and> fire_count es = 0"
  using idle_run[OF assms] .

theorem idle_after_departure_witness:
  "\<not> person_present departed
   \<and> dets (call_at 13 []) = [] \<and> dets (call_at 14 []) = []
   \<and> handle_all default_config no_telegram [call_at 13 [], call_at 14 []] departed
       = (departed, [])
   \<and> fire_count [] = 0"
  using idle_after_departure[of departed "[call_at 13 [], call_at 14 []]" default_config
      no_telegram departed "[]"]
  by (simp add: eval_defs fire_count_def)

text \<open>
  Claim C10. \<^verbatim>\<open>__init__\<close> sets the last-event time to 0, so the cooldown of the first
  arrival of a session is measured from the origin of the monotonic clock: when the first
  call with a detection comes at a clock value below \<^verbatim>\<open>EVENT_COOLDOWN_SECONDS\<close>, it
  fires no event and \<open>person_present\<close> stays false, although the session has fired no event
  at all so far.
\<close>

theorem first_arrival_gated_by_clock_origin:
  assumes "EventHandler_init cfg nt True = Inr (s0, e0)"
      and "\<forall>c\<in>set before. dets c = []"
      and "handle_all cfg nt before s0 = (s1, e1)"
      and "dets cl \<noteq> []" and "now cl < EVENT_COOLDOWN_SECONDS cfg"
      and "handle cfg nt cl s1 = (a, s2, e2)"
  shows "fire_count (e0 @ e1 @ e2) = 0 \<and> \<not> person_present s2 \<and> last_event_time s2 = 0"
proof -
  from assms(1) have s0: "\<not> person_present s0" "last_event_time s0 = 0" "fire_count e0 = 0"
    by (auto simp: EventHandler_init_def fire_count_session_start)
  from idle_run[OF s0(1) assms(2,3)] s0
  have s1: "\<not> person_present s1" "last_event_time s1 = 0" "fire_count e1 = 0" by simp_all
  from handle_cases[OF assms(6)] assms(4,5) s1
  have "fire_count e2 = 0 \<and> \<not> person_present s2 \<and> last_event_time s2 = 0" by simp
  with s0 s1 show ?thesis by (simp add: fire_count_append)
qed

theorem first_arrival_gated_by_clock_origin_witness:
  "EventHandler_init default_config no_telegram True = Inr (initial, [])
   \<and> dets (call_at 1 []) = []
   \<and> handle_all default_config no_telegram [call_at 1 []] initial = (initial, [])
   \<and> dets (call_at 3 [det0]) \<noteq> []
   \<and> now (call_at 3 [det0]) < EVENT_COOLDOWN_SECONDS default_config
   \<and> handle default_config no_telegram (call_at 3 [det0]) initial
       = (False, initial\<lparr>last_seen_time := 3\<rparr>, [])
   \<and> \<not> person_present (initial\<lparr>last_seen_time := 3\<rparr>)"
  using first_arrival_gated_by_clock_origin[of default_config no_telegram initial "[]"
      "[call_at 1 []]" initial "[]" "call_at 3 [det0]" False "initial\<lparr>last_seen_time := 3\<rparr>" "[]"]
  by (simp add: eval_defs)

section \<open>The clip writer\<close>

lemma clip_ok_init: "clip_ok cfg (fst (ClipWriter_init cfg p sz))"
  by (simp add: clip_ok_def ClipWriter_init_def)

lemma clip_ok_write: "clip_ok cfg c \<Longrightarrow> clip_ok cfg (fst (ClipWriter_write c f))"
  by (auto simp: clip_ok_def ClipWriter_write_def is_finished_def)

lemma clip_ok_write_eq: "clip_ok cfg c \<Longrightarrow> ClipWriter_write c f = (c', e) \<Longrightarrow> clip_ok cfg c'"
  using clip_ok_write[of cfg c f] by simp

lemma clip_ok_finished:
  "clip_ok cfg c \<Longrightarrow> is_finished c \<Longrightarrow>
     written c = max 0 (py_int (CLIP_DURATION_S cfg * CLIP_FPS cfg))"
  by (auto simp: clip_ok_def is_finished_def)

lemma write_finished_noop: "is_finished c \<Longrightarrow> ClipWriter_write c f = (c, [])"
  by (simp add: ClipWriter_write_def)

lemma feed_clip_ok:
  "\<forall>c. active_clip s = Some c \<longrightarrow> clip_ok cfg c \<Longrightarrow> feed_clip cl s = (s1, e1)
     \<Longrightarrow> \<forall>c. active_clip s1 = Some c \<longrightarrow> clip_ok cfg c"
  by (auto simp: feed_clip_def split: option.splits prod.splits if_splits
      dest: clip_ok_write_eq)

text \<open>The only clip \<^verbatim>\<open>_fire_event\<close> can install is a fresh one holding the trigger frame.\<close>

lemma fire_event_clip:
  "fire_event cfg nt cl s = (s', es) \<Longrightarrow>
     active_clip s' =
       (if SAVE_CLIPS cfg \<and> active_clip s = None
        then Some (fst (ClipWriter_write
               (fst (ClipWriter_init cfg
                  (path_join (CLIPS_DIR cfg) (''clip_'' @ iso_ts cl @ ''.mp4''))
                  (snd (shape (image cl)), fst (shape (image cl)))))
               (image cl)))
        else active_clip s)"
  by (auto simp: fire_event_def Let_def split: prod.splits)

lemma fire_event_ok:
  assumes "\<forall>c. active_clip s = Some c \<longrightarrow> clip_ok cfg c" and "fire_event cfg nt cl s = (s1, e1)"
  shows "\<forall>c. active_clip s1 = Some c \<longrightarrow> clip_ok cfg c"
  using fire_event_clip[OF assms(2)] assms(1) clip_ok_write[OF clip_ok_init]
  by (simp split: if_splits)

lemma presence_ok:
  "\<forall>c. active_clip s = Some c \<longrightarrow> clip_ok cfg c \<Longrightarrow> presence cfg nt cl s = (s1, e1)
     \<Longrightarrow> \<forall>c. active_clip s1 = Some c \<longrightarrow> clip_ok cfg c"
  by (auto simp: presence_def Let_def split: if_splits dest!: fire_event_ok[rotated])

lemma handle_ok:
  assumes "\<forall>c. active_clip s = Some c \<longrightarrow> clip_ok cfg c" and "handle cfg nt cl s = (a, s', es)"
  shows "\<forall>c. active_clip s' = Some c \<longrightarrow> clip_ok cfg c"
proof -
  from assms(2) obtain s1 e1 e2 where f: "feed_clip cl s = (s1, e1)"
    and p: "presence cfg nt cl s1 = (s', e2)" by (rule handle_unfold)
  from presence_ok[OF feed_clip_ok[OF assms(1) f] p] show ?thesis .
qed

lemma handle_all_ok:
  "\<forall>c. active_clip s = Some c \<longrightarrow> clip_ok cfg c \<Longrightarrow> handle_all cfg nt cls s = (s', es)
     \<Longrightarrow> \<forall>c. active_clip s' = Some c \<longrightarrow> clip_ok cfg c"
proof (induction cls arbitrary: s s' es)
  case Nil
  then show ?case by simp
next
  case (Cons c cls)
  obtain a s1 e1 where h: "handle cfg nt c s = (a, s1, e1)" by (cases "handle cfg nt c s")
  obtain s2 e2 where r: "handle_all cfg nt cls s1 = (s2, e2)"
    by (cases "handle_all cfg nt cls s1")
  from Cons.prems(2) h r have eq: "s' = s2" by simp
  from Cons.IH[OF handle_ok[OF Cons.prems(1) h] r] eq show ?case by simp
qed

text \<open>The scan of a trace follows the handler through every step.\<close>

lemma scan_send_alert: "foldl clip_step st (send_alert nt f d ts) = st"
  by (cases st) (simp add: send_alert_def Let_def split: option.splits)

lemma scan_session_start: "foldl clip_step st (send_session_start nt) = st"
  by (cases st) (simp add: send_session_start_def)

lemma tracks_feed_clip:
  "tracks cfg s st \<Longrightarrow> feed_clip cl s = (s1, e1) \<Longrightarrow> tracks cfg s1 (foldl clip_step st e1)"
  by (cases st)
     (auto simp: tracks_def feed_clip_def ClipWriter_write_def ClipWriter_close_def
        clip_ok_def is_finished_def nat_add_distrib
        split: option.splits if_splits prod.splits)

lemma tracks_fire_event:
  "tracks cfg s st \<Longrightarrow> fire_event cfg nt cl s = (s1, e1)
     \<Longrightarrow> tracks cfg s1 (foldl clip_step st e1)"
  by (cases st)
     (auto simp: tracks_def fire_event_def Let_def ClipWriter_init_def ClipWriter_write_def
        clip_ok_def is_finished_def scan_send_alert
        split: option.splits if_splits prod.splits)

lemma tracks_flags:
  "tracks cfg (s\<lparr>last_seen_time := t\<rparr>) st = tracks cfg s st"
  "tracks cfg (s\<lparr>person_present := b\<rparr>) st = tracks cfg s st"
  "tracks cfg (s\<lparr>last_event_time := t\<rparr>) st = tracks cfg s st"
  by (simp_all add: tracks_def)

lemma tracks_presence:
  assumes t: "tracks cfg s st" and p: "presence cfg nt cl s = (s1, e1)"
  shows "tracks cfg s1 (foldl clip_step st e1)"
proof (cases "dets cl \<noteq> [] \<and> \<not> person_present s
              \<and> EVENT_COOLDOWN_SECONDS cfg \<le> now cl - last_event_time s")
  case True
  let ?s = "s\<lparr>last_seen_time := now cl, person_present := True, last_event_time := now cl\<rparr>"
  from True p have f: "fire_event cfg nt cl ?s = (s1, e1)"
    by (simp add: presence_def Let_def)
  from t have "tracks cfg ?s st" by (simp add: tracks_flags)
  from tracks_fire_event[OF this f] show ?thesis .
next
  case False
  with p t show ?thesis
    by (cases st) (auto simp: presence_def Let_def tracks_flags split: if_splits)
qed

lemma tracks_handle:
  assumes "tracks cfg s st" and "handle cfg nt cl s = (a, s', es)"
  shows "tracks cfg s' (foldl clip_step st es)"
proof -
  from assms(2) obtain s1 e1 e2 where f: "feed_clip cl s = (s1, e1)"
    and p: "presence cfg nt cl s1 = (s', e2)" and es: "es = e1 @ e2"
    by (rule handle_unfold)
  from tracks_presence[OF tracks_feed_clip[OF assms(1) f] p] es show ?thesis by simp
qed

lemma tracks_handle_all:
  "tracks cfg s st \<Longrightarrow> handle_all cfg nt cls s = (s', es)
     \<Longrightarrow> tracks cfg s' (foldl clip_step st es)"
proof (induction cls arbitrary: s s' es st)
  case Nil
  then show ?case by simp
next
  case (Cons c cls)
  obtain a s1 e1 where h: "handle cfg nt c s = (a, s1, e1)" by (cases "handle cfg nt c s")
  obtain s2 e2 where r: "handle_all cfg nt cls s1 = (s2, e2)"
    by (cases "handle_all cfg nt cls s1")
  from Cons.prems(2) h r have eq: "s' = s2" "es = e1 @ e2" by simp_all
  from Cons.IH[OF tracks_handle[OF Cons.prems(1) h] r] eq show ?case by simp
qed

lemma tracks_session:
  assumes "EventHandler_init cfg nt True = Inr (s0, e0)" and "handle_all cfg nt cls s0 = (s, es)"
  shows "tracks cfg s (clip_scan (e0 @ es))"
proof -
  from assms(1) have "tracks cfg s0 (foldl clip_step (None, []) e0)"
    by (auto simp: EventHandler_init_def scan_session_start tracks_def)
  from tracks_handle_all[OF this assms(2)] show ?thesis by (simp add: clip_scan_def)
qed

lemma short_clip_two_frames:
  "handle_all short_clip_config no_telegram [call_at 10 [det0], call_at 10.1 [det0]] initial
   = (\<lparr>last_event_time = 10,
       active_clip = Some \<lparr>filepath = clip_file, max_frames = 3, written = 2\<rparr>,
       person_present = True, last_seen_time = 10.1\<rparr>,
      [Log INFO (PersonDetected 1 [0.87]),
       WriterOpen clip_file 15 (1280, 720),
       WriterWrite clip_file frame0,
       Log INFO (RecordingClip 0.25 clip_file),
       Log WARNING TelegramNotConfigured,
       WriterWrite clip_file frame0])"
  by (simp add: eval_defs)

lemma short_clip_three_frames:
  "handle_all short_clip_config no_telegram
      [call_at 10 [det0], call_at 10.1 [det0], call_at 10.2 [det0]] initial
   = (\<lparr>last_event_time = 10, active_clip = None, person_present = True, last_seen_time = 10.2\<rparr>,
      [Log INFO (PersonDetected 1 [0.87]),
       WriterOpen clip_file 15 (1280, 720),
       WriterWrite clip_file frame0,
       Log INFO (RecordingClip 0.25 clip_file),
       Log WARNING TelegramNotConfigured,
       WriterWrite clip_file frame0,
       WriterWrite clip_file frame0,
       Log INFO (ClipSaved clip_file),
       WriterRelease clip_file])"
  by (simp add: eval_defs)

text \<open>
  Claim C3, as the code has it. The target of a clip is
  \<^verbatim>\<open>int(CLIP_DURATION_S * CLIP_FPS)\<close>: the product truncated toward zero, not rounded.
  Take any session, from construction through any number of calls of \<^verbatim>\<open>handle\<close>; the
  only releases in its trace are those of \<^verbatim>\<open>handle\<close> finalising a clip, since
  \<^verbatim>\<open>shutdown\<close> is not part of it. Counted on the trace, between the opening of a
  writer and its release, every clip so finalised has had exactly that many frames handed
  to the video writer, none when the target is negative. The clip still open has had as
  many frames handed to the writer as its counter \<open>written\<close> says, and never more than
  the target. When the write of the next frame makes the active clip finished, its counter
  equals the target. A write on a finished clip returns the clip unchanged and hands no
  frame to the writer.
\<close>

theorem clip_length_truncated:
  assumes "EventHandler_init cfg nt True = Inr (s0, e0)"
      and "handle_all cfg nt cls s0 = (s, es)"
  shows "(\<forall>n\<in>set (clip_lengths (e0 @ es)).
            int n = max 0 (py_int (CLIP_DURATION_S cfg * CLIP_FPS cfg)))
       \<and> open_clip_frames (e0 @ es)
           = map_option (\<lambda>c. (filepath c, nat (written c))) (active_clip s)
       \<and> (\<forall>c\<in>set_option (active_clip s).
            0 \<le> written c \<and> written c \<le> max 0 (py_int (CLIP_DURATION_S cfg * CLIP_FPS cfg)))
       \<and> (active_clip s = Some c0 \<and> ClipWriter_write c0 f0 = (c', ew) \<and> is_finished c'
            \<longrightarrow> written c' = max 0 (py_int (CLIP_DURATION_S cfg * CLIP_FPS cfg)))
       \<and> (is_finished c \<longrightarrow> ClipWriter_write c f = (c, []))"
proof -
  note t = tracks_session[OF assms]
  from t have lens: "\<forall>n\<in>set (clip_lengths (e0 @ es)).
            int n = max 0 (py_int (CLIP_DURATION_S cfg * CLIP_FPS cfg))"
    by (simp add: tracks_def clip_lengths_def list_all_iff)
  from t have cur: "open_clip_frames (e0 @ es)
           = map_option (\<lambda>c. (filepath c, nat (written c))) (active_clip s)"
    by (simp add: tracks_def open_clip_frames_def)
  from t have ok: "\<forall>c\<in>set_option (active_clip s). clip_ok cfg c"
    by (auto simp: tracks_def split: option.splits)
  then have bound: "\<forall>c\<in>set_option (active_clip s).
            0 \<le> written c \<and> written c \<le> max 0 (py_int (CLIP_DURATION_S cfg * CLIP_FPS cfg))"
    by (auto simp: clip_ok_def)
  have fin: "active_clip s = Some c0 \<and> ClipWriter_write c0 f0 = (c', ew) \<and> is_finished c'
            \<longrightarrow> written c' = max 0 (py_int (CLIP_DURATION_S cfg * CLIP_FPS cfg))"
  proof
    assume a: "active_clip s = Some c0 \<and> ClipWriter_write c0 f0 = (c', ew) \<and> is_finished c'"
    with ok have "clip_ok cfg c0" by simp
    from clip_ok_write_eq[OF this] a have "clip_ok cfg c'" by blast
    from clip_ok_finished[OF this] a
    show "written c' = max 0 (py_int (CLIP_DURATION_S cfg * CLIP_FPS cfg))" by simp
  qed
  have noop: "is_finished c \<longrightarrow> ClipWriter_write c f = (c, [])"
    by (simp add: write_finished_noop)
  from lens cur bound fin noop show ?thesis by blast
qed

theorem clip_length_truncated_witness:
  "EventHandler_init short_clip_config no_telegram True = Inr (initial, [])
   \<and> clip_lengths (snd (handle_all short_clip_config no_telegram
        [call_at 10 [det0], call_at 10.1 [det0], call_at 10.2 [det0]] initial)) = [3]
   \<and> max 0 (py_int (CLIP_DURATION_S short_clip_config * CLIP_FPS short_clip_config)) = 3
   \<and> open_clip_frames (snd (handle_all short_clip_config no_telegram
        [call_at 10 [det0], call_at 10.1 [det0]] initial)) = Some (clip_file, 2)
   \<and> ClipWriter_write \<lparr>filepath = clip_file, max_frames = 3, written = 2\<rparr> frame0
       = (\<lparr>filepath = clip_file, max_frames = 3, written = 3\<rparr>, [WriterWrite clip_file frame0])
   \<and> is_finished \<lparr>filepath = clip_file, max_frames = 3, written = 3\<rparr>
   \<and> ClipWriter_write \<lparr>filepath = clip_file, max_frames = 3, written = 3\<rparr> frame0
       = (\<lparr>filepath = clip_file, max_frames = 3, written = 3\<rparr>, [])"
  using clip_length_truncated[where cfg = short_clip_config and nt = no_telegram
      and ?s0.0 = initial and ?e0.0 = "[]"
      and cls = "[call_at 10 [det0], call_at 10.1 [det0], call_at 10.2 [det0]]"
      and s = "\<lparr>last_event_time = 10, active_clip = None, person_present = True,
                last_seen_time = 10.2\<rparr>"
      and es = "[Log INFO (PersonDetected 1 [0.87]),
                 WriterOpen clip_file 15 (1280, 720),
                 WriterWrite clip_file frame0,
                 Log INFO (RecordingClip 0.25 clip_file),
                 Log WARNING TelegramNotConfigured,
                 WriterWrite clip_file frame0,
                 WriterWrite clip_file frame0,
                 Log INFO (ClipSaved clip_file),
                 WriterRelease clip_file]"
      and c = "\<lparr>filepath = clip_file, max_frames = 3, written = 3\<rparr>" and f = frame0]
    clip_length_truncated[where cfg = short_clip_config and nt = no_telegram
      and ?s0.0 = initial and ?e0.0 = "[]"
      and cls = "[call_at 10 [det0], call_at 10.1 [det0]]"
      and s = "\<lparr>last_event_time = 10,
                active_clip = Some \<lparr>filepath = clip_file, max_frames = 3, written = 2\<rparr>,
                person_present = True, last_seen_time = 10.1\<rparr>"
      and es = "[Log INFO (PersonDetected 1 [0.87]),
                 WriterOpen clip_file 15 (1280, 720),
                 WriterWrite clip_file frame0,
                 Log INFO (RecordingClip 0.25 clip_file),
                 Log WARNING TelegramNotConfigured,
                 WriterWrite clip_file frame0]"
      and ?c0.0 = "\<lparr>filepath = clip_file, max_frames = 3, written = 2\<rparr>" and ?f0.0 = frame0
      and c' = "\<lparr>filepath = clip_file, max_frames = 3, written = 3\<rparr>"
      and ew = "[WriterWrite clip_file frame0]"]
    short_clip_two_frames short_clip_three_frames
  by (simp add: EventHandler_init_def send_session_start_def is_configured_def no_telegram_def
      initial_def ClipWriter_write_def is_finished_def short_clip_config_def default_config_def
      py_int_def clip_lengths_def open_clip_frames_def clip_scan_def)

text \<open>
  The claim as first stated asks for \<open>round (duration * fps)\<close> frames. With a duration of
  0.25 s at 15 frames per second the product is 3.75: the clip is finalised by \<^verbatim>\<open>handle\<close>
  ("Clip saved", then the release) after 3 frames, and 3.75 rounds to 4.
\<close>

theorem clip_length_not_rounded:
  "handle_all short_clip_config no_telegram
      [call_at 10 [det0], call_at 10.1 [det0], call_at 10.2 [det0]] initial
   = (\<lparr>last_event_time = 10, active_clip = None, person_present = True, last_seen_time = 10.2\<rparr>,
      [Log INFO (PersonDetected 1 [0.87]),
       WriterOpen clip_file 15 (1280, 720),
       WriterWrite clip_file frame0,
       Log INFO (RecordingClip 0.25 clip_file),
       Log WARNING TelegramNotConfigured,
       WriterWrite clip_file frame0,
       WriterWrite clip_file frame0,
       Log INFO (ClipSaved clip_file),
       WriterRelease clip_file])
   \<and> frames_written (snd (handle_all short_clip_config no_telegram
        [call_at 10 [det0], call_at 10.1 [det0], call_at 10.2 [det0]] initial)) = 3
   \<and> clip_lengths (snd (handle_all short_clip_config no_telegram
        [call_at 10 [det0], call_at 10.1 [det0], call_at 10.2 [det0]] initial)) = [3]
   \<and> round (CLIP_DURATION_S short_clip_config * CLIP_FPS short_clip_config) = 4"
  by (simp add: eval_defs round_def frames_written_def clip_lengths_def clip_scan_def)

section \<open>Departure\<close>

text \<open>
  Claim C4, as the code has it. A call of \<^verbatim>\<open>handle\<close> without detections while a person
  is marked present compares the time since the last detection with
  \<^verbatim>\<open>ABSENCE_GRACE_SECONDS\<close> using \<^verbatim>\<open>>=\<close>. When the elapsed time is at least the grace
  period (equal to it included), \<open>person_present\<close> becomes false and "Person left the frame"
  is logged after whatever the clip feed logged. When it is strictly less, the person
  stays present and only the clip feed acts: the state differs from the old one in
  \<open>active_clip\<close> at most, and the effects are those of the feed.
\<close>

theorem departure_at_grace:
  assumes "dets cl = []" and "person_present s"
      and "handle cfg nt cl s = (a, s', es)" and "feed_clip cl s = (s1, e1)"
  shows "(now cl - last_seen_time s \<ge> ABSENCE_GRACE_SECONDS cfg \<longrightarrow>
            \<not> person_present s' \<and> es = e1 @ [Log INFO PersonLeft]
            \<and> s' = s\<lparr>active_clip := active_clip s1, person_present := False\<rparr>)
       \<and> (now cl - last_seen_time s < ABSENCE_GRACE_SECONDS cfg \<longrightarrow>
            person_present s' \<and> es = e1 \<and> s' = s\<lparr>active_clip := active_clip s1\<rparr>)"
proof -
  from assms(3) obtain t1 f1 f2 where f: "feed_clip cl s = (t1, f1)"
    and p: "presence cfg nt cl t1 = (s', f2)" and es: "es = f1 @ f2"
    by (rule handle_unfold)
  from f assms(4) have eq: "t1 = s1" "f1 = e1" by simp_all
  from feed_clip_only_clip[OF assms(4)] have s1: "s1 = s\<lparr>active_clip := active_clip s1\<rparr>" .
  from feed_clip_presence[OF assms(4)]
  have pp: "person_present s1" "last_seen_time s1 = last_seen_time s"
    using assms(2) by simp_all
  from presence_cases[OF p] assms(1) eq pp es s1
  show ?thesis by (auto split: if_splits)
qed

theorem departure_at_grace_witness:
  "dets (call_at 11 []) = [] \<and> dets (call_at 13 []) = [] \<and> person_present visiting
   \<and> now (call_at 11 []) - last_seen_time visiting < ABSENCE_GRACE_SECONDS default_config
   \<and> handle default_config no_telegram (call_at 11 []) visiting = (True, visiting, [])
   \<and> now (call_at 13 []) - last_seen_time visiting \<ge> ABSENCE_GRACE_SECONDS default_config
   \<and> handle default_config no_telegram (call_at 13 []) visiting
       = (False, visiting\<lparr>person_present := False\<rparr>, [Log INFO PersonLeft])"
  using departure_at_grace[where cl = "call_at 11 []" and s = visiting
      and cfg = default_config and nt = no_telegram and a = True and s' = visiting
      and es = "[]" and ?s1.0 = visiting and ?e1.0 = "[]"]
    departure_at_grace[where cl = "call_at 13 []" and s = visiting
      and cfg = default_config and nt = no_telegram and a = False
      and s' = "visiting\<lparr>person_present := False\<rparr>"
      and es = "[Log INFO PersonLeft]" and ?s1.0 = visiting and ?e1.0 = "[]"]
  by (simp add: eval_defs)

text \<open>
  The claim as first stated makes the person leave only when the elapsed time exceeds the
  grace period, and stay while it is within it. Exactly 2 seconds after the last
  detection, with a grace period of 2 seconds, the elapsed time does not exceed the grace
  period, and \<^verbatim>\<open>handle\<close> marks the person as gone.
\<close>

theorem departure_on_grace_boundary:
  "dets (call_at 12 []) = [] \<and> person_present visiting
   \<and> \<not> (now (call_at 12 []) - last_seen_time visiting > ABSENCE_GRACE_SECONDS default_config)
   \<and> handle default_config no_telegram (call_at 12 []) visiting
       = (False, visiting\<lparr>person_present := False\<rparr>, [Log INFO PersonLeft])"
  by (simp add: eval_defs)

section \<open>One clip at a time\<close>

lemma open_writers_Nil: "open_writers [] = 0"
  by (simp add: open_writers_def)

lemma open_writers_Cons:
  "open_writers (x # xs) =
     (if is_open x then 1 else 0) - (if is_release x then 1 else 0) + open_writers xs"
  by (simp add: open_writers_def)

lemma open_writers_append: "open_writers (xs @ ys) = open_writers xs + open_writers ys"
  by (simp add: open_writers_def)

lemma no_open_send_alert:
  "filter is_open (send_alert nt f d ts) = [] \<and> filter is_release (send_alert nt f d ts) = []"
  by (simp add: send_alert_def Let_def split: option.splits)

lemma open_writers_send_alert: "open_writers (send_alert nt f d ts) = 0"
  by (simp add: open_writers_def no_open_send_alert)

lemma open_writers_session_start: "open_writers (send_session_start nt) = 0"
  by (simp add: send_session_start_def open_writers_def)

text \<open>Each step opens and releases writers in step with \<open>active_clip\<close>.\<close>

lemma feed_clip_open:
  "feed_clip cl s = (s1, e1) \<Longrightarrow>
     open_writers e1 = open_clips s1 - open_clips s \<and> filter is_open e1 = []"
  by (auto simp: feed_clip_def ClipWriter_write_def ClipWriter_close_def open_clips_def
      open_writers_def split: option.splits if_splits prod.splits)

lemma fire_event_open:
  "fire_event cfg nt cl s = (s', es) \<Longrightarrow> open_writers es = open_clips s' - open_clips s"
  by (auto simp: fire_event_def Let_def ClipWriter_init_def ClipWriter_write_def open_clips_def
      open_writers_append open_writers_Cons open_writers_Nil open_writers_send_alert
      split: if_splits prod.splits)

lemma fire_event_busy:
  "active_clip s = Some c \<Longrightarrow> fire_event cfg nt cl s = (s', es)
     \<Longrightarrow> s' = s \<and> filter is_open es = []"
  by (auto simp: fire_event_def Let_def no_open_send_alert split: if_splits prod.splits)

lemma presence_open:
  "presence cfg nt cl s = (s', es) \<Longrightarrow> open_writers es = open_clips s' - open_clips s"
  by (auto simp: presence_def Let_def open_writers_Nil open_writers_Cons open_clips_def
      dest!: fire_event_open split: if_splits)

lemma presence_busy:
  "active_clip s = Some c \<Longrightarrow> presence cfg nt cl s = (s', es)
     \<Longrightarrow> active_clip s' = Some c \<and> filter is_open es = []"
  by (auto simp: presence_def Let_def dest!: fire_event_busy[rotated] split: if_splits)

lemma handle_open:
  assumes "handle cfg nt cl s = (a, s', es)"
  shows "open_writers es = open_clips s' - open_clips s"
proof -
  from assms obtain s1 e1 e2 where f: "feed_clip cl s = (s1, e1)"
    and p: "presence cfg nt cl s1 = (s', e2)" and es: "es = e1 @ e2"
    by (rule handle_unfold)
  from feed_clip_open[OF f] presence_open[OF p] es show ?thesis
    by (simp add: open_writers_append)
qed

lemma handle_all_open:
  "handle_all cfg nt cls s = (s', es) \<Longrightarrow> open_writers es = open_clips s' - open_clips s"
proof (induction cls arbitrary: s s' es)
  case Nil
  then show ?case by (simp add: open_writers_Nil)
next
  case (Cons c cls)
  obtain a s1 e1 where h: "handle cfg nt c s = (a, s1, e1)" by (cases "handle cfg nt c s")
  obtain s2 e2 where r: "handle_all cfg nt cls s1 = (s2, e2)"
    by (cases "handle_all cfg nt cls s1")
  from Cons.prems h r have eq: "s' = s2" "es = e1 @ e2" by simp_all
  from handle_open[OF h] Cons.IH[OF r] eq show ?case
    by (simp add: open_writers_append)
qed

lemma first_clip_eval:
  "handle_all overlap_config no_telegram [call_at 10 [det0]] initial
   = (\<lparr>last_event_time = 10,
       active_clip = Some \<lparr>filepath = clip_file, max_frames = 160, written = 1\<rparr>,
       person_present = True, last_seen_time = 10\<rparr>,
      [Log INFO (PersonDetected 1 [0.87]),
       WriterOpen clip_file 20 (1280, 720),
       WriterWrite clip_file frame0,
       Log INFO (RecordingClip 8 clip_file),
       Log WARNING TelegramNotConfigured])"
  by (simp add: eval_defs)

lemma overlap_fire_eval:
  "fire_event overlap_config no_telegram (call_at 12 [det0]) recording
   = (recording, [Log INFO (PersonDetected 1 [0.87]), Log WARNING TelegramNotConfigured])"
  by (simp add: eval_defs)

lemma overlap_handle_eval:
  "handle overlap_config no_telegram (call_at 12 [det0]) recording
   = (True,
      \<lparr>last_event_time = 12,
       active_clip = Some \<lparr>filepath = clip_file, max_frames = 160, written = 31\<rparr>,
       person_present = True, last_seen_time = 12\<rparr>,
      [WriterWrite clip_file frame0,
       Log INFO (PersonDetected 1 [0.87]), Log WARNING TelegramNotConfigured])"
  by (simp add: eval_defs)

text \<open>
  Claim C5. The handler holds at most one clip, and the video writers follow it: over a
  whole session, from construction on, the writers opened and not yet released are as many
  as the clips the handler holds, none or one. When the event-fire procedure runs while a
  clip is active it changes nothing in the handler and opens no writer; and a call of
  \<^verbatim>\<open>handle\<close> that finds a clip still short of its target after this frame keeps that
  very clip, one frame further, whether or not the call fires an event.
\<close>

theorem at_most_one_clip_open:
  "(EventHandler_init cfg nt True = Inr (s0, e0) \<and> handle_all cfg nt cls s0 = (s, es) \<longrightarrow>
      open_writers (e0 @ es) = open_clips s \<and> open_writers (e0 @ es) \<le> 1)
   \<and> (active_clip h = Some c \<and> fire_event cfg nt cl h = (h', es') \<longrightarrow>
        h' = h \<and> filter is_open es' = [])
   \<and> (active_clip h = Some c \<and> \<not> is_finished (fst (ClipWriter_write c (image cl)))
        \<and> handle cfg nt cl h = (a, h'', es'') \<longrightarrow>
        active_clip h'' = Some (fst (ClipWriter_write c (image cl)))
        \<and> filter is_open es'' = [])"
proof (intro conjI impI)
  assume pre: "EventHandler_init cfg nt True = Inr (s0, e0) \<and> handle_all cfg nt cls s0 = (s, es)"
  then have i: "open_clips s0 = 0" "open_writers e0 = 0"
    by (auto simp: EventHandler_init_def open_clips_def open_writers_session_start)
  from pre have r: "handle_all cfg nt cls s0 = (s, es)" by simp
  from handle_all_open[OF r] i show eq: "open_writers (e0 @ es) = open_clips s"
    by (simp add: open_writers_append)
  then show "open_writers (e0 @ es) \<le> 1" by (simp add: open_clips_def)
next
  assume pre: "active_clip h = Some c \<and> fire_event cfg nt cl h = (h', es')"
  then have "h' = h \<and> filter is_open es' = []" using fire_event_busy by blast
  then show "h' = h" and "filter is_open es' = []" by simp_all
next
  assume pre: "active_clip h = Some c \<and> \<not> is_finished (fst (ClipWriter_write c (image cl)))
        \<and> handle cfg nt cl h = (a, h'', es'')"
  then obtain s1 e1 e2 where f: "feed_clip cl h = (s1, e1)"
    and p: "presence cfg nt cl s1 = (h'', e2)" and es: "es'' = e1 @ e2"
    using handle_unfold by blast
  from f pre have a1: "active_clip s1 = Some (fst (ClipWriter_write c (image cl)))"
    by (auto simp: feed_clip_def split: prod.splits if_splits)
  from presence_busy[OF a1 p] feed_clip_open[OF f] es
  have "active_clip h'' = Some (fst (ClipWriter_write c (image cl))) \<and> filter is_open es'' = []"
    by simp
  then show "active_clip h'' = Some (fst (ClipWriter_write c (image cl)))"
    and "filter is_open es'' = []" by simp_all
qed

theorem at_most_one_clip_open_witness:
  "EventHandler_init overlap_config no_telegram True = Inr (initial, [])
   \<and> open_writers (snd (handle_all overlap_config no_telegram [call_at 10 [det0]] initial)) = 1
   \<and> active_clip recording = Some \<lparr>filepath = clip_file, max_frames = 160, written = 30\<rparr>
   \<and> fire_event overlap_config no_telegram (call_at 12 [det0]) recording
       = (recording, [Log INFO (PersonDetected 1 [0.87]), Log WARNING TelegramNotConfigured])
   \<and> \<not> is_finished (fst (ClipWriter_write
          \<lparr>filepath = clip_file, max_frames = 160, written = 30\<rparr> frame0))
   \<and> active_clip (fst (snd (handle overlap_config no_telegram (call_at 12 [det0]) recording)))
       = Some \<lparr>filepath = clip_file, max_frames = 160, written = 31\<rparr>
   \<and> fire_count (snd (snd (handle overlap_config no_telegram (call_at 12 [det0]) recording))) = 1
   \<and> filter is_open (snd (snd (handle overlap_config no_telegram (call_at 12 [det0]) recording)))
       = []"
  using at_most_one_clip_open[where cfg = overlap_config and nt = no_telegram
      and ?s0.0 = initial and ?e0.0 = "[]" and cls = "[call_at 10 [det0]]"
      and s = "\<lparr>last_event_time = 10,
                active_clip = Some \<lparr>filepath = clip_file, max_frames = 160, written = 1\<rparr>,
                person_present = True, last_seen_time = 10\<rparr>"
      and es = "[Log INFO (PersonDetected 1 [0.87]),
                 WriterOpen clip_file 20 (1280, 720),
                 WriterWrite clip_file frame0,
                 Log INFO (RecordingClip 8 clip_file),
                 Log WARNING TelegramNotConfigured]"
      and h = recording and c = "\<lparr>filepath = clip_file, max_frames = 160, written = 30\<rparr>"
      and cl = "call_at 12 [det0]" and h' = recording
      and es' = "[Log INFO (PersonDetected 1 [0.87]), Log WARNING TelegramNotConfigured]"
      and a = True
      and h'' = "\<lparr>last_event_time = 12,
                  active_clip = Some \<lparr>filepath = clip_file, max_frames = 160, written = 31\<rparr>,
                  person_present = True, last_seen_time = 12\<rparr>"
      and es'' = "[WriterWrite clip_file frame0,
                   Log INFO (PersonDetected 1 [0.87]), Log WARNING TelegramNotConfigured]"]
    first_clip_eval overlap_fire_eval overlap_handle_eval
  by (simp add: EventHandler_init_def send_session_start_def is_configured_def no_telegram_def
      initial_def recording_def call_at_def ClipWriter_write_def is_finished_def
      open_clips_def fire_count_def)

section \<open>The capture loop\<close>

lemma no_detect_send_alert: "filter is_detect (send_alert nt f d ts) = []"
  by (simp add: send_alert_def Let_def split: option.splits)

lemma no_detect_feed_clip: "feed_clip cl s = (s1, e1) \<Longrightarrow> filter is_detect e1 = []"
  by (auto simp: feed_clip_def ClipWriter_write_def ClipWriter_close_def
      split: option.splits if_splits prod.splits)

lemma no_detect_fire_event: "fire_event cfg nt cl s = (s', es) \<Longrightarrow> filter is_detect es = []"
  by (auto simp: fire_event_def Let_def ClipWriter_init_def ClipWriter_write_def
      no_detect_send_alert split: if_splits prod.splits)

lemma no_detect_presence: "presence cfg nt cl s = (s', es) \<Longrightarrow> filter is_detect es = []"
  by (auto simp: presence_def Let_def dest!: no_detect_fire_event split: if_splits)

lemma no_detect_handle:
  assumes "handle cfg nt cl s = (a, s', es)"
  shows "filter is_detect es = []"
proof -
  from assms obtain s1 e1 e2 where f: "feed_clip cl s = (s1, e1)"
    and p: "presence cfg nt cl s1 = (s', e2)" and es: "es = e1 @ e2"
    by (rule handle_unfold)
  from no_detect_feed_clip[OF f] no_detect_presence[OF p] es show ?thesis by simp
qed

text \<open>The keyboard controls touch neither the counter, the detections nor the handler.\<close>

lemma key_control_keeps:
  "key_control cfg it s = (st, s', es) \<Longrightarrow>
     frame_count s' = frame_count s \<and> detections s' = detections s
     \<and> alert_active s' = alert_active s \<and> event_handler s' = event_handler s
     \<and> filter is_detect es = []"
  by (auto simp: key_control_def save_manual_snapshot_def Let_def split: if_splits)

lemma second_frame_eval:
  "main_step (default_config\<lparr>FRAME_SKIP := 2\<rparr>) no_telegram sees_one (read_at 3) loop1
   = (Continue,
      loop1\<lparr>frame_count := 2, detections := [det0],
            event_handler := initial\<lparr>last_seen_time := 3\<rparr>\<rparr>,
      [DetectorCall 0.45 frame0])"
  by (simp add: main_step_def key_control_def ord_def read_at_def loop1_def sees_one_def
      eval_defs)

text \<open>
  Claim C6. In an iteration that reads a frame while the loop is not paused, with
  \<^verbatim>\<open>FRAME_SKIP\<close> at least 1: the frame counter goes up by one; the detector runs once if
  the new counter is a multiple of \<^verbatim>\<open>FRAME_SKIP\<close> and not at all otherwise; the detection
  list is the detector's answer in the first case and the previous list, unchanged, in the
  second; and \<^verbatim>\<open>handle\<close> is called on this frame with that list in both cases, its result
  becoming the alert flag and the handler of the loop.
\<close>

theorem detector_cadence:
  assumes "cap_read it = Some fr" and "\<not> paused s" and "1 \<le> FRAME_SKIP cfg"
      and "main_step cfg nt detect it s = (st, s', es)"
      and "handle cfg nt \<lparr>now = clock it, iso_ts = wall it, image = fr, dets = detections s'\<rparr>
             (event_handler s) = (a, h, eh)"
  shows "frame_count s' = frame_count s + 1
       \<and> detector_calls es = (if frame_count s' mod FRAME_SKIP cfg = 0 then 1 else 0)
       \<and> detections s' = (if frame_count s' mod FRAME_SKIP cfg = 0
                           then detect (conf_thresh s) fr else detections s)
       \<and> alert_active s' = a \<and> event_handler s' = h
       \<and> (\<exists>e_key. filter is_detect e_key = [] \<and>
            es = (if frame_count s' mod FRAME_SKIP cfg = 0
                  then [DetectorCall (conf_thresh s) fr] else []) @ eh @ e_key)"
proof -
  let ?fc = "frame_count s + 1"
  let ?ds = "if ?fc mod FRAME_SKIP cfg = 0 then detect (conf_thresh s) fr else detections s"
  let ?ed = "if ?fc mod FRAME_SKIP cfg = 0 then [DetectorCall (conf_thresh s) fr] else []"
  let ?cl = "\<lparr>now = clock it, iso_ts = wall it, image = fr, dets = ?ds\<rparr>"
  obtain a1 h1 eh1 where h: "handle cfg nt ?cl (event_handler s) = (a1, h1, eh1)"
    by (cases "handle cfg nt ?cl (event_handler s)")
  let ?s2 = "s\<lparr>frame_count := ?fc, detections := ?ds, alert_active := a1, event_handler := h1\<rparr>"
  obtain st3 s3 ek where k: "key_control cfg it ?s2 = (st3, s3, ek)"
    by (cases "key_control cfg it ?s2")
  from assms(1-4) h k have res: "st = st3" "s' = s3" "es = ?ed @ eh1 @ ek"
    by (auto simp: main_step_def Let_def split: if_splits)
  from key_control_keeps[OF k] res
  have keep: "frame_count s' = ?fc" "detections s' = ?ds" "alert_active s' = a1"
    "event_handler s' = h1" "filter is_detect ek = []"
    by simp_all
  from keep(1,2) h assms(5) have same: "a = a1" "h = h1" "eh = eh1" by simp_all
  from no_detect_handle[OF h] keep res same
  have dc: "detector_calls es = (if frame_count s' mod FRAME_SKIP cfg = 0 then 1 else 0)"
    by (simp add: detector_calls_def)
  from keep res same have
    "\<exists>e_key. filter is_detect e_key = [] \<and>
            es = (if frame_count s' mod FRAME_SKIP cfg = 0
                  then [DetectorCall (conf_thresh s) fr] else []) @ eh @ e_key"
    by auto
  with keep same dc show ?thesis by simp
qed

theorem detector_cadence_witness:
  "cap_read (read_at 3) = Some frame0 \<and> \<not> paused loop1
   \<and> 1 \<le> FRAME_SKIP (default_config\<lparr>FRAME_SKIP := 2\<rparr>)
   \<and> main_step (default_config\<lparr>FRAME_SKIP := 2\<rparr>) no_telegram sees_one (read_at 3) loop1
       = (Continue,
          loop1\<lparr>frame_count := 2, detections := [det0],
                event_handler := initial\<lparr>last_seen_time := 3\<rparr>\<rparr>,
          [DetectorCall 0.45 frame0])
   \<and> detector_calls [DetectorCall 0.45 frame0] = 1
   \<and> handle (default_config\<lparr>FRAME_SKIP := 2\<rparr>) no_telegram (call_at 3 [det0]) initial
       = (False, initial\<lparr>last_seen_time := 3\<rparr>, [])"
  using detector_cadence[where it = "read_at 3" and fr = frame0 and s = loop1
      and cfg = "default_config\<lparr>FRAME_SKIP := 2\<rparr>" and nt = no_telegram
      and detect = sees_one and st = Continue
      and s' = "loop1\<lparr>frame_count := 2, detections := [det0],
                      event_handler := initial\<lparr>last_seen_time := 3\<rparr>\<rparr>"
      and es = "[DetectorCall 0.45 frame0]" and a = False
      and h = "initial\<lparr>last_seen_time := 3\<rparr>" and eh = "[]"]
    second_frame_eval
  by (simp add: read_at_def loop1_def sees_one_def detector_calls_def eval_defs)

section \<open>Construction\<close>

text \<open>
  Claim C7, as the code has it. \<^verbatim>\<open>__init__\<close> never looks at
  \<^verbatim>\<open>EVENT_COOLDOWN_SECONDS\<close> or \<^verbatim>\<open>ABSENCE_GRACE_SECONDS\<close>: construction fails only
  when the output directories or the log file cannot be created, and otherwise yields the
  same initial handler (nobody present, both timestamps 0, no clip) for every
  configuration, after announcing the session start.
\<close>

theorem construction_ignores_config:
  "isl (EventHandler_init cfg nt io_ok) = (\<not> io_ok)
   \<and> EventHandler_init cfg nt True = Inr (initial, send_session_start nt)"
  by (simp add: EventHandler_init_def initial_def)

theorem construction_ignores_config_witness:
  "isl (EventHandler_init nonpositive_config no_telegram True) = (\<not> True)
   \<and> EventHandler_init nonpositive_config no_telegram True
       = Inr (initial, send_session_start no_telegram)"
  using construction_ignores_config[of nonpositive_config no_telegram True]
  by simp

text \<open>
  The claim as first stated has construction reject a non-positive cooldown or grace
  period. With a cooldown of -1 and a grace period of 0 construction succeeds.
\<close>

theorem nonpositive_config_accepted:
  "EVENT_COOLDOWN_SECONDS nonpositive_config \<le> 0
   \<and> ABSENCE_GRACE_SECONDS nonpositive_config \<le> 0
   \<and> EventHandler_init nonpositive_config no_telegram True = Inr (initial, [])"
  by (simp add: EventHandler_init_def initial_def nonpositive_config_def default_config_def
      no_telegram_def send_session_start_def is_configured_def)

section \<open>The notifier without credentials\<close>

text \<open>
  Claim C8, as the code has it. Without a bot token or without a chat id,
  \<^verbatim>\<open>send_session_start\<close> and \<^verbatim>\<open>send_session_end\<close> do nothing at all, and
  \<^verbatim>\<open>send_alert\<close> starts no thread and sends nothing but logs one warning,
  "[Telegram] Not configured ...", before it returns.
\<close>

theorem unconfigured_notifier:
  assumes "\<not> is_configured nt"
  shows "send_session_start nt = [] \<and> send_session_end nt = []
         \<and> send_alert nt fr ds ts = [Log WARNING TelegramNotConfigured]"
  using assms by (simp add: send_session_start_def send_session_end_def send_alert_def)

theorem unconfigured_notifier_witness:
  "\<not> is_configured no_telegram \<and> send_session_start no_telegram = []
   \<and> send_session_end no_telegram = []
   \<and> send_alert no_telegram (Some frame0) [det0] ''2025-01-01 00-00-00 UTC''
       = [Log WARNING TelegramNotConfigured]"
  using unconfigured_notifier[of no_telegram "Some frame0" "[det0]" "''2025-01-01 00-00-00 UTC''"]
  by (simp add: is_configured_def no_telegram_def)

text \<open>
  The claim as first stated has every notification call produce no output when the
  notifier is not configured. \<^verbatim>\<open>send_alert\<close> does produce a log line then.
\<close>

theorem unconfigured_alert_logs_warning:
  "\<not> is_configured no_telegram
   \<and> send_alert no_telegram (Some frame0) [det0] ''2025-01-01 00-00-00 UTC'' \<noteq> []"
  by (simp add: is_configured_def no_telegram_def send_alert_def)

end
